theory Spec2Isabelle
  imports Main "HOL-Library.Product_Lexorder"
begin

section \<open>The snake game: grid, snake, entities, input, high score\<close>

text \<open>
  A shallow embedding of \<^verbatim>\<open>the_snake.py\<close>. Classes become records (inheritance from
  \<^verbatim>\<open>GameObject\<close> is record extension), Python integers are \<^typ>\<open>int\<close>, tuples are
  pairs, attributes that may hold \<^verbatim>\<open>None\<close> are options, and every exception the code
  can raise is a value of the type \<open>error\<close>, returned as \<open>Inl\<close>.
  Drawing, the window caption and the frame clock change nothing the game logic reads
  and are left out.
\<close>

subsection \<open>Constants\<close>

datatype error = IndexError | ValueError | OSError | SystemExit

type_synonym cell = "int \<times> int"
type_synonym color = "nat \<times> nat \<times> nat"

definition SCREEN_WIDTH :: int where "SCREEN_WIDTH = 640"
definition SCREEN_HEIGHT :: int where "SCREEN_HEIGHT = 480"
definition GRID_SIZE :: int where "GRID_SIZE = 20"
definition GRID_WIDTH :: int where "GRID_WIDTH = SCREEN_WIDTH div GRID_SIZE"
definition GRID_HEIGHT :: int where "GRID_HEIGHT = SCREEN_HEIGHT div GRID_SIZE"

definition ALL_CELLS :: "cell set" where
  "ALL_CELLS = set [(x * GRID_SIZE, y * GRID_SIZE).
                      x \<leftarrow> [0 .. GRID_WIDTH - 1], y \<leftarrow> [0 .. GRID_HEIGHT - 1]]"

definition UP :: "int \<times> int" where "UP = (0, -1)"
definition DOWN :: "int \<times> int" where "DOWN = (0, 1)"
definition LEFT :: "int \<times> int" where "LEFT = (-1, 0)"
definition RIGHT :: "int \<times> int" where "RIGHT = (1, 0)"

definition APPLE_COLOR :: color where "APPLE_COLOR = (255, 0, 0)"
definition BAD_FOOD_COLOR :: color where "BAD_FOOD_COLOR = (255, 165, 0)"
definition SNAKE_COLOR :: color where "SNAKE_COLOR = (0, 255, 0)"
definition OBSTACLE_COLOR :: color where "OBSTACLE_COLOR = (128, 128, 128)"

definition SPEED :: int where "SPEED = 10"

subsection \<open>Game objects and the snake\<close>

record game_object =
  position :: cell
  body_color :: color

text \<open>
  The fields \<^verbatim>\<open>length\<close> and \<^verbatim>\<open>last\<close> of the class are named \<open>length_snake\<close> and
  \<open>last_snake\<close> here, since the list functions of those names are needed as well.
\<close>

record snake = game_object +
  length_snake :: int
  positions :: "cell list"
  direction :: "int \<times> int"
  next_direction :: "(int \<times> int) option"
  last_snake :: "cell option"

text \<open>\<^verbatim>\<open>Snake.__init__\<close>: every attribute is assigned, so the result is one fixed value.\<close>

definition Snake_init :: snake where
  "Snake_init =
     \<lparr>position = (SCREEN_WIDTH div 2, SCREEN_HEIGHT div 2),
      body_color = SNAKE_COLOR,
      length_snake = 1,
      positions = [(SCREEN_WIDTH div 2, SCREEN_HEIGHT div 2)],
      direction = RIGHT,
      next_direction = None,
      last_snake = None\<rparr>"

text \<open>\<^verbatim>\<open>positions[0]\<close> raises \<^verbatim>\<open>IndexError\<close> on an empty list.\<close>

definition get_head_position :: "snake \<Rightarrow> error + cell" where
  "get_head_position s = (case positions s of [] \<Rightarrow> Inl IndexError | h # _ \<Rightarrow> Inr h)"

text \<open>
  \<^verbatim>\<open>if self.next_direction:\<close> tests truthiness: \<^verbatim>\<open>None\<close> is false and every
  two-element tuple is true.
\<close>

definition update_direction :: "snake \<Rightarrow> snake" where
  "update_direction s =
     (case next_direction s of
        None \<Rightarrow> s
      | Some d \<Rightarrow> s\<lparr>direction := d, next_direction := None\<rparr>)"

text \<open>\<^verbatim>\<open>reset\<close> calls \<^verbatim>\<open>__init__\<close> on the same object.\<close>

definition reset :: "snake \<Rightarrow> snake" where
  "reset s = Snake_init"

text \<open>The cell \<^verbatim>\<open>new\<close> that \<^verbatim>\<open>move\<close> computes from the head \<open>cur\<close>.\<close>

definition next_head :: "cell \<Rightarrow> int \<times> int \<Rightarrow> cell" where
  "next_head cur d =
     ((fst cur + fst d * GRID_SIZE) mod SCREEN_WIDTH,
      (snd cur + snd d * GRID_SIZE) mod SCREEN_HEIGHT)"

text \<open>
  \<^verbatim>\<open>positions[1:]\<close> is \<open>tl\<close>; \<^verbatim>\<open>insert(0, new)\<close> conses; \<^verbatim>\<open>pop()\<close> removes and
  returns the last element. The final assignment \<^verbatim>\<open>self.position = self.positions[0]\<close>
  reads a list that is not empty in either branch.
\<close>

definition move :: "snake \<Rightarrow> error + snake" where
  "move s =
     (case get_head_position s of
        Inl e \<Rightarrow> Inl e
      | Inr cur \<Rightarrow>
          let new = next_head cur (direction s) in
          if new \<in> set (tl (positions s)) then
            (let s' = reset s in
             case positions s' of
               [] \<Rightarrow> Inl IndexError
             | h # _ \<Rightarrow> Inr (s'\<lparr>position := h\<rparr>))
          else
            (let ps = new # positions s;
                 s' = (if int (length ps) > length_snake s
                       then s\<lparr>positions := butlast ps, last_snake := Some (last ps)\<rparr>
                       else s\<lparr>positions := ps, last_snake := None\<rparr>)
             in case positions s' of
                  [] \<Rightarrow> Inl IndexError
                | h # _ \<Rightarrow> Inr (s'\<lparr>position := h\<rparr>)))"

subsection \<open>The persisted high score\<close>

text \<open>
  The backing store is the path \<^verbatim>\<open>highscore.txt\<close> as the program meets it:
  \<open>contents\<close> is \<open>None\<close> when \<^verbatim>\<open>os.path.exists\<close> is false and the text otherwise;
  \<open>readable\<close> tells whether \<^verbatim>\<open>open(path, 'r')\<close> succeeds on the existing path and
  \<open>writable\<close> whether \<^verbatim>\<open>open(path, 'w')\<close> succeeds (a directory of that name, or missing
  permissions, make them false). A failing \<^verbatim>\<open>open\<close> raises \<^verbatim>\<open>OSError\<close>. The code changes
  the contents only. Characters are code points up to 255.
\<close>

record store =
  contents :: "string option"
  readable :: bool
  writable :: bool

text \<open>
  Conversions between integers and text refuse more than \<open>MAX_STR_DIGITS\<close> decimal
  digits with \<^verbatim>\<open>ValueError\<close>: the interpreter's limit
  (\<^verbatim>\<open>sys.get_int_max_str_digits()\<close>), 4300 unless configured otherwise.
\<close>

definition MAX_STR_DIGITS :: nat where
  "MAX_STR_DIGITS = 4300"

text \<open>
  \<^verbatim>\<open>str.strip()\<close> removes leading and trailing white space, the characters for which
  \<^verbatim>\<open>str.isspace\<close> holds.
\<close>

definition isspace :: "char \<Rightarrow> bool" where
  "isspace c = ((of_char c :: nat) \<in> {9, 10, 11, 12, 13, 28, 29, 30, 31, 32, 133, 160})"

definition strip :: "string \<Rightarrow> string" where
  "strip s = rev (dropWhile isspace (rev (dropWhile isspace s)))"

text \<open>
  \<^verbatim>\<open>int(s)\<close> in base 10: white space around the number is ignored (the separators
  U+001C to U+001F are not among the characters \<^verbatim>\<open>int\<close> ignores), then comes an
  optional sign, then decimal digits in which single underscores may separate digits.
  Anything else raises \<^verbatim>\<open>ValueError\<close>, and so does a number written with more than
  \<open>MAX_STR_DIGITS\<close> digits, leading zeros counted.
\<close>

definition int_isspace :: "char \<Rightarrow> bool" where
  "int_isspace c = ((of_char c :: nat) \<in> {9, 10, 11, 12, 13, 32, 133, 160})"

definition int_strip :: "string \<Rightarrow> string" where
  "int_strip s = rev (dropWhile int_isspace (rev (dropWhile int_isspace s)))"

definition isdigit :: "char \<Rightarrow> bool" where
  "isdigit c = (48 \<le> (of_char c :: nat) \<and> (of_char c :: nat) \<le> 57)"

definition digit_value :: "char \<Rightarrow> int" where
  "digit_value c = int (of_char c) - 48"

fun parse_digits :: "int \<Rightarrow> string \<Rightarrow> int option" where
  "parse_digits acc [] = Some acc"
| "parse_digits acc [c] = (if isdigit c then Some (10 * acc + digit_value c) else None)"
| "parse_digits acc (c # d # cs) =
     (if isdigit c then parse_digits (10 * acc + digit_value c) (d # cs)
      else if c = CHR ''_'' \<and> isdigit d then parse_digits (10 * acc + digit_value d) cs
      else None)"

definition parse_decimal :: "string \<Rightarrow> int option" where
  "parse_decimal s =
     (case s of
        [] \<Rightarrow> None
      | c # cs \<Rightarrow> if isdigit c then parse_digits (digit_value c) cs else None)"

definition py_int :: "string \<Rightarrow> error + int" where
  "py_int s =
     (let t = int_strip s;
          r = (case t of
                 [] \<Rightarrow> None
               | c # cs \<Rightarrow>
                   if c = CHR ''-'' then map_option uminus (parse_decimal cs)
                   else if c = CHR ''+'' then parse_decimal cs
                   else parse_decimal t)
      in case r of
           None \<Rightarrow> Inl ValueError
         | Some n \<Rightarrow>
             if length (filter isdigit t) > MAX_STR_DIGITS then Inl ValueError else Inr n)"

text \<open>
  \<^verbatim>\<open>str(i)\<close>: the decimal digits, most significant first, after a minus sign if negative;
  \<^verbatim>\<open>ValueError\<close> when there are more than \<open>MAX_STR_DIGITS\<close> digits.
\<close>

definition digit_char :: "nat \<Rightarrow> char" where
  "digit_char d = char_of (48 + d)"

fun str_nat :: "nat \<Rightarrow> string" where
  "str_nat n = (if n < 10 then [digit_char n] else str_nat (n div 10) @ [digit_char (n mod 10)])"

declare str_nat.simps [simp del]

definition py_str :: "int \<Rightarrow> error + string" where
  "py_str i =
     (let digits = str_nat (nat \<bar>i\<bar>) in
      if length digits > MAX_STR_DIGITS then Inl ValueError
      else Inr (if i < 0 then CHR ''-'' # digits else digits))"

text \<open>
  \<^verbatim>\<open>load_high_score\<close>: \<^verbatim>\<open>open\<close> stands outside the \<^verbatim>\<open>try\<close>, and the \<^verbatim>\<open>try\<close> catches
  \<^verbatim>\<open>ValueError\<close> only.
\<close>

definition load_high_score :: "store \<Rightarrow> error + int" where
  "load_high_score st =
     (case contents st of
        None \<Rightarrow> Inr 0
      | Some text \<Rightarrow>
          if \<not> readable st then Inl OSError
          else
            (case py_int (strip text) of
               Inl ValueError \<Rightarrow> Inr 0
             | Inl e \<Rightarrow> Inl e
             | Inr n \<Rightarrow> Inr n))"

text \<open>
  \<^verbatim>\<open>save_high_score\<close>: \<^verbatim>\<open>open(path, 'w')\<close> creates the file or empties it; only then is
  \<^verbatim>\<open>str(score)\<close> evaluated and written. The result is what the call raises, if anything,
  together with the store it leaves behind.
\<close>

definition save_high_score :: "int \<Rightarrow> store \<Rightarrow> (error + unit) \<times> store" where
  "save_high_score score st =
     (if \<not> writable st then (Inl OSError, st)
      else
        (case py_str score of
           Inl e \<Rightarrow> (Inl e, st\<lparr>contents := Some []\<rparr>)
         | Inr text \<Rightarrow> (Inr (), st\<lparr>contents := Some text\<rparr>)))"

text \<open>
  \<^verbatim>\<open>change_title\<close>: only its effect on the store is modelled; the caption it sets is
  display.
\<close>

definition change_title :: "int \<Rightarrow> store \<Rightarrow> (error + unit) \<times> store" where
  "change_title snake_length st =
     (case load_high_score st of
        Inl e \<Rightarrow> (Inl e, st)
      | Inr high_score \<Rightarrow>
          if snake_length > high_score then save_high_score snake_length st
          else (Inr (), st))"

text \<open>
  An exception that leaves \<^verbatim>\<open>main\<close> ends the program: where the game calls
  \<^verbatim>\<open>change_title\<close>, the model goes on with the store the call left, or stops with the
  exception.
\<close>

definition store_after :: "(error + unit) \<times> store \<Rightarrow> error + store" where
  "store_after r = (case fst r of Inl e \<Rightarrow> Inl e | Inr u \<Rightarrow> Inr (snd r))"

subsection \<open>Apple, bad food and obstacle\<close>

definition get_available_positions :: "cell list \<Rightarrow> cell set" where
  "get_available_positions snake_positions = ALL_CELLS - set snake_positions"

text \<open>
  \<^verbatim>\<open>list(s)\<close> enumerates a set once each, in an order the language leaves open; the
  model enumerates in lexicographic order. \<^verbatim>\<open>random.choice\<close> raises
  \<^verbatim>\<open>IndexError\<close> on an empty sequence and otherwise returns the element at a random
  index below the length. The generator's draw is the argument \<open>r\<close>, reduced modulo the
  length, so that letting \<open>r\<close> range over the naturals reaches every element and
  nothing else (\<open>choice_reaches\<close> below), whatever the enumeration order.
\<close>

definition py_list :: "cell set \<Rightarrow> cell list" where
  "py_list s = sorted_list_of_set s"

definition choice :: "nat \<Rightarrow> 'a list \<Rightarrow> error + 'a" where
  "choice r xs = (if xs = [] then Inl IndexError else Inr (xs ! (r mod length xs)))"

definition GameObject_init :: "cell \<Rightarrow> color \<Rightarrow> game_object" where
  "GameObject_init pos color = \<lparr>position = pos, body_color = color\<rparr>"

definition Apple_randomize_position ::
  "nat \<Rightarrow> cell list \<Rightarrow> game_object \<Rightarrow> error + game_object" where
  "Apple_randomize_position r snake_positions obj =
     (case choice r (py_list (get_available_positions snake_positions)) of
        Inl e \<Rightarrow> Inl e
      | Inr p \<Rightarrow> Inr (obj\<lparr>position := p\<rparr>))"

definition BadFood_randomize_position ::
  "nat \<Rightarrow> cell list \<Rightarrow> game_object \<Rightarrow> error + game_object" where
  "BadFood_randomize_position r snake_positions obj =
     (case choice r (py_list (get_available_positions snake_positions)) of
        Inl e \<Rightarrow> Inl e
      | Inr p \<Rightarrow> Inr (obj\<lparr>position := p\<rparr>))"

definition Obstacle_randomize_position ::
  "nat \<Rightarrow> cell list \<Rightarrow> game_object \<Rightarrow> error + game_object" where
  "Obstacle_randomize_position r snake_positions obj =
     (case choice r (py_list (get_available_positions snake_positions)) of
        Inl e \<Rightarrow> Inl e
      | Inr p \<Rightarrow> Inr (obj\<lparr>position := p\<rparr>))"

text \<open>
  The constructors call \<^verbatim>\<open>randomize_position\<close> on the object under construction and
  then \<^verbatim>\<open>GameObject.__init__\<close> with the position just chosen. The object has no
  attributes before; the model starts from the defaults of \<^verbatim>\<open>GameObject.__init__\<close>,
  both of which are overwritten.
\<close>

definition Apple_init :: "nat \<Rightarrow> cell list \<Rightarrow> error + game_object" where
  "Apple_init r snake_positions =
     (case Apple_randomize_position r snake_positions
             (GameObject_init (0, 0) (255, 255, 255)) of
        Inl e \<Rightarrow> Inl e
      | Inr obj \<Rightarrow> Inr (GameObject_init (position obj) APPLE_COLOR))"

definition BadFood_init :: "nat \<Rightarrow> cell list \<Rightarrow> error + game_object" where
  "BadFood_init r snake_positions =
     (case BadFood_randomize_position r snake_positions
             (GameObject_init (0, 0) (255, 255, 255)) of
        Inl e \<Rightarrow> Inl e
      | Inr obj \<Rightarrow> Inr (GameObject_init (position obj) BAD_FOOD_COLOR))"

definition Obstacle_init :: "nat \<Rightarrow> cell list \<Rightarrow> error + game_object" where
  "Obstacle_init r snake_positions =
     (case Obstacle_randomize_position r snake_positions
             (GameObject_init (0, 0) (255, 255, 255)) of
        Inl e \<Rightarrow> Inl e
      | Inr obj \<Rightarrow> Inr (GameObject_init (position obj) OBSTACLE_COLOR))"

subsection \<open>Input\<close>

text \<open>
  The events \<^verbatim>\<open>pygame.event.get()\<close> returns are the first argument of
  \<open>handle_keys\<close>. Only the event types and keys the code tests are told apart;
  \<open>K_OTHER\<close> stands for every other key code and \<open>OTHER_EVENT\<close> for every other
  event type. \<^verbatim>\<open>raise SystemExit\<close> is the error \<open>SystemExit\<close>.
\<close>

datatype key = K_UP | K_DOWN | K_LEFT | K_RIGHT | K_ESCAPE | K_q | K_w | K_OTHER nat

datatype event = QUIT | KEYDOWN key | OTHER_EVENT

definition direction_map :: "key \<rightharpoonup> int \<times> int" where
  "direction_map = [K_UP \<mapsto> UP, K_DOWN \<mapsto> DOWN, K_LEFT \<mapsto> LEFT, K_RIGHT \<mapsto> RIGHT]"

fun handle_keys :: "event list \<Rightarrow> snake \<Rightarrow> int \<Rightarrow> error + snake \<times> int" where
  "handle_keys [] snake current_speed = Inr (snake, current_speed)"
| "handle_keys (QUIT # events) snake current_speed = Inl SystemExit"
| "handle_keys (KEYDOWN k # events) snake current_speed =
     (if k = K_ESCAPE then Inl SystemExit
      else if k = K_q then handle_keys events snake (current_speed + 2)
      else if k = K_w then handle_keys events snake (max 1 (current_speed - 2))
      else handle_keys events (snake\<lparr>next_direction := direction_map k\<rparr>) current_speed)"
| "handle_keys (OTHER_EVENT # events) snake current_speed =
     handle_keys events snake current_speed"

subsection \<open>The game loop\<close>

text \<open>
  The local variables of \<^verbatim>\<open>main\<close> and the store. The three random draws a tick may
  consume (apple, bad food, obstacle) and the tick's events are arguments.
\<close>

record game =
  snake :: snake
  apple :: game_object
  bad_food :: game_object
  obstacle :: game_object
  current_speed :: int
  high_score_file :: store

definition and_then :: "error + 'a \<Rightarrow> ('a \<Rightarrow> error + 'b) \<Rightarrow> error + 'b" where
  "and_then m f = (case m of Inl e \<Rightarrow> Inl e | Inr x \<Rightarrow> f x)"

text \<open>The statements of \<^verbatim>\<open>main\<close> before the loop.\<close>

definition main_init :: "nat \<Rightarrow> nat \<Rightarrow> nat \<Rightarrow> store \<Rightarrow> error + game" where
  "main_init ra rb ro file =
     (let sn = Snake_init in
      and_then (Apple_init ra (positions sn)) (\<lambda>a.
      and_then (BadFood_init rb (positions sn)) (\<lambda>b.
      and_then (Obstacle_init ro (positions sn)) (\<lambda>ob.
      and_then (store_after (change_title (length_snake sn) file)) (\<lambda>file'.
        Inr \<lparr>snake = sn, apple = a, bad_food = b, obstacle = ob,
             current_speed = SPEED, high_score_file = file'\<rparr>)))))"

text \<open>The loop body, in the order of the source, one definition per block.\<close>

definition tick_input :: "event list \<Rightarrow> game \<Rightarrow> error + game" where
  "tick_input events g =
     (case handle_keys events (snake g) (current_speed g) of
        Inl e \<Rightarrow> Inl e
      | Inr (sn, speed) \<Rightarrow> Inr (g\<lparr>snake := sn, current_speed := speed\<rparr>))"

definition tick_move :: "game \<Rightarrow> error + game" where
  "tick_move g =
     (case move (update_direction (snake g)) of
        Inl e \<Rightarrow> Inl e
      | Inr sn \<Rightarrow> Inr (g\<lparr>snake := sn\<rparr>))"

definition tick_apple :: "nat \<Rightarrow> game \<Rightarrow> error + game" where
  "tick_apple ra g =
     (case get_head_position (snake g) of
        Inl e \<Rightarrow> Inl e
      | Inr h \<Rightarrow>
          if h = position (apple g) then
            (let sn = (snake g)\<lparr>length_snake := length_snake (snake g) + 1\<rparr> in
             case Apple_randomize_position ra (positions sn) (apple g) of
               Inl e \<Rightarrow> Inl e
             | Inr a \<Rightarrow> Inr (g\<lparr>snake := sn, apple := a\<rparr>))
          else Inr g)"

text \<open>
  \<^verbatim>\<open>snake.positions.pop()\<close> runs after the head was read, so the list is not empty
  and the call removes its last element.
\<close>

definition tick_bad_food :: "nat \<Rightarrow> game \<Rightarrow> error + game" where
  "tick_bad_food rb g =
     (case get_head_position (snake g) of
        Inl e \<Rightarrow> Inl e
      | Inr h \<Rightarrow>
          if h = position (bad_food g) then
            and_then
              (if length_snake (snake g) > 1 then
                 Inr (g\<lparr>snake := (snake g)\<lparr>length_snake := length_snake (snake g) - 1,
                                           positions := butlast (positions (snake g))\<rparr>\<rparr>)
               else
                 and_then (store_after (change_title (length_snake (snake g)) (high_score_file g)))
                   (\<lambda>file'. Inr (g\<lparr>high_score_file := file', snake := reset (snake g)\<rparr>)))
              (\<lambda>g'. case BadFood_randomize_position rb (positions (snake g')) (bad_food g') of
                      Inl e \<Rightarrow> Inl e
                    | Inr b \<Rightarrow> Inr (g'\<lparr>bad_food := b\<rparr>))
          else Inr g)"

definition tick_obstacle :: "nat \<Rightarrow> game \<Rightarrow> error + game" where
  "tick_obstacle ro g =
     (case get_head_position (snake g) of
        Inl e \<Rightarrow> Inl e
      | Inr h \<Rightarrow>
          if h = position (obstacle g) then
            and_then (store_after (change_title (length_snake (snake g)) (high_score_file g)))
              (\<lambda>file'.
                 let g' = g\<lparr>high_score_file := file', snake := reset (snake g)\<rparr> in
                 case Obstacle_randomize_position ro (positions (snake g')) (obstacle g') of
                   Inl e \<Rightarrow> Inl e
                 | Inr ob \<Rightarrow> Inr (g'\<lparr>obstacle := ob\<rparr>))
          else Inr g)"

definition tick :: "nat \<Rightarrow> nat \<Rightarrow> nat \<Rightarrow> event list \<Rightarrow> game \<Rightarrow> error + game" where
  "tick ra rb ro events g =
     and_then (tick_input events g) (\<lambda>g1.
     and_then (tick_move g1) (\<lambda>g2.
     and_then (tick_apple ra g2) (\<lambda>g3.
     and_then (tick_bad_food rb g3) (\<lambda>g4.
       tick_obstacle ro g4))))"

text \<open>The conditions under which a tick takes one of its branches.\<close>

definition self_collision :: "snake \<Rightarrow> bool" where
  "self_collision s =
     (case positions s of
        [] \<Rightarrow> False
      | h # t \<Rightarrow> next_head h (direction s) \<in> set t)"

definition apple_eaten :: "game \<Rightarrow> bool" where
  "apple_eaten g = (get_head_position (snake g) = Inr (position (apple g)))"

definition bad_food_resets :: "game \<Rightarrow> bool" where
  "bad_food_resets g =
     (get_head_position (snake g) = Inr (position (bad_food g))
      \<and> \<not> length_snake (snake g) > 1)"

definition obstacle_hit :: "game \<Rightarrow> bool" where
  "obstacle_hit g = (get_head_position (snake g) = Inr (position (obstacle g)))"

subsection \<open>Facts about the snake\<close>

lemma ALL_CELLS_union:
  "ALL_CELLS = (\<Union>x\<in>{0..31}. (\<lambda>y. (x * 20, y * 20)) ` {0..23})"
  unfolding ALL_CELLS_def GRID_WIDTH_def GRID_HEIGHT_def GRID_SIZE_def
    SCREEN_WIDTH_def SCREEN_HEIGHT_def
  by (simp only: set_concat set_map set_upto) simp

lemma ALL_CELLS_iff:
  "c \<in> ALL_CELLS \<longleftrightarrow>
     (\<exists>x y. 0 \<le> x \<and> x < 32 \<and> 0 \<le> y \<and> y < 24 \<and> c = (x * 20, y * 20))"
  unfolding ALL_CELLS_union by (cases c) (auto simp: image_iff)

lemma next_head_unfold:
  "next_head h d = ((fst h + fst d * 20) mod 640, (snd h + snd d * 20) mod 480)"
  by (simp add: next_head_def GRID_SIZE_def SCREEN_WIDTH_def SCREEN_HEIGHT_def)

lemma move_collision:
  assumes "positions s = h # t" and "next_head h (direction s) \<in> set t"
  shows "move s = Inr Snake_init"
  using assms by (simp add: move_def get_head_position_def reset_def Snake_init_def)

lemma move_free:
  assumes "positions s = h # t" and "next_head h (direction s) \<notin> set t"
  shows "move s =
           Inr (if int (length t) + 2 > length_snake s
                then s\<lparr>positions := butlast (next_head h (direction s) # h # t),
                       last_snake := Some (last (h # t)),
                       position := next_head h (direction s)\<rparr>
                else s\<lparr>positions := next_head h (direction s) # h # t,
                       last_snake := None,
                       position := next_head h (direction s)\<rparr>)"
  using assms by (simp add: move_def get_head_position_def Let_def)

text \<open>
  C1. Whenever the cell computed for the next head is one of \<^verbatim>\<open>positions[1:]\<close>,
  \<^verbatim>\<open>move\<close> does not prepend it: the snake is exactly the freshly constructed one, of
  length 1, with the board centre as its only cell, heading right, nothing queued.
\<close>

theorem move_self_collision_resets:
  assumes "positions s = h # t"
    and "((fst h + fst (direction s) * 20) mod 640,
          (snd h + snd (direction s) * 20) mod 480) \<in> set t"
  shows "move s = Inr Snake_init
       \<and> length_snake Snake_init = 1
       \<and> positions Snake_init = [(320, 240)]
       \<and> direction Snake_init = (1, 0)
       \<and> next_direction Snake_init = None"
proof -
  have "next_head h (direction s) \<in> set t"
    using assms(2) by (simp add: next_head_unfold)
  then have "move s = Inr Snake_init"
    using assms(1) by (rule move_collision [rotated])
  then show ?thesis
    by (simp add: Snake_init_def SCREEN_WIDTH_def SCREEN_HEIGHT_def RIGHT_def)
qed

theorem move_self_collision_resets_witness:
  "move \<lparr>position = (40, 0), body_color = SNAKE_COLOR, length_snake = 4,
         positions = [(40, 0), (20, 0), (20, 20), (40, 20)], direction = DOWN,
         next_direction = None, last_snake = None\<rparr> = Inr Snake_init
   \<and> length_snake Snake_init = 1
   \<and> positions Snake_init = [(320, 240)]
   \<and> direction Snake_init = (1, 0)
   \<and> next_direction Snake_init = None"
  by (rule move_self_collision_resets [where h = "(40, 0)" and t = "[(20, 0), (20, 20), (40, 20)]"])
     (simp_all add: DOWN_def)

text \<open>
  C2. When the computed cell is not in \<^verbatim>\<open>positions[1:]\<close>, \<^verbatim>\<open>move\<close> succeeds and the new
  head is the old head advanced by one cell in the current direction, taken modulo the
  board's pixel width and height. In particular, from a board cell in the rightmost
  column, moving \<^verbatim>\<open>RIGHT\<close> leads to column 0 of the same row.
\<close>

theorem move_wraps_around:
  assumes "positions s = h # t"
    and "((fst h + fst (direction s) * 20) mod 640,
          (snd h + snd (direction s) * 20) mod 480) \<notin> set t"
  shows "\<exists>s'. move s = Inr s'
            \<and> get_head_position s' =
                Inr ((fst h + fst (direction s) * 20) mod 640,
                     (snd h + snd (direction s) * 20) mod 480)
            \<and> (h \<in> ALL_CELLS \<and> fst h = 620 \<and> direction s = RIGHT
                 \<longrightarrow> get_head_position s' = Inr (0, snd h))"
proof -
  let ?new = "next_head h (direction s)"
  have free: "?new \<notin> set t"
    using assms(2) by (simp add: next_head_unfold)
  obtain s' where s': "move s = Inr s'" and hd': "get_head_position s' = Inr ?new"
    using move_free [OF assms(1) free]
    by (cases "int (length t) + 2 > length_snake s") (simp_all add: get_head_position_def)
  have "?new = (0, snd h)" if "h \<in> ALL_CELLS" "fst h = 620" "direction s = RIGHT"
    using that by (auto simp: ALL_CELLS_iff next_head_unfold RIGHT_def)
  with s' hd' show ?thesis
    by (auto simp: next_head_unfold)
qed

theorem move_wraps_around_witness:
  "(620, 100) \<in> ALL_CELLS \<and>
   (\<exists>s'. move \<lparr>position = (620, 100), body_color = SNAKE_COLOR, length_snake = 2,
              positions = [(620, 100), (600, 100)], direction = RIGHT,
              next_direction = None, last_snake = None\<rparr> = Inr s'
        \<and> get_head_position s' = Inr (0, 100))"
proof -
  have cell: "(620, 100) \<in> ALL_CELLS"
    unfolding ALL_CELLS_iff by (rule exI [of _ 31], rule exI [of _ 5]) simp
  show ?thesis
    using cell move_wraps_around [where h = "(620, 100)" and t = "[(600, 100)]" and
        s = "\<lparr>position = (620, 100), body_color = SNAKE_COLOR, length_snake = 2,
             positions = [(620, 100), (600, 100)], direction = RIGHT,
             next_direction = None, last_snake = None\<rparr>"]
    by (auto simp: RIGHT_def)
qed

text \<open>
  C9. A snake of length at least 2 whose second cell is the one the head has just left
  cannot reverse: once the opposite of the current direction is queued,
  \<^verbatim>\<open>update_direction\<close> followed by \<^verbatim>\<open>move\<close> resets it to the single centre cell with
  length 1.
\<close>

theorem instant_reversal_resets:
  assumes "2 \<le> length_snake s"
    and "positions s = h # p # rest"
    and "p = ((fst h - fst (direction s) * 20) mod 640,
              (snd h - snd (direction s) * 20) mod 480)"
  shows "move (update_direction
                 (s\<lparr>next_direction := Some (- fst (direction s), - snd (direction s))\<rparr>))
           = Inr Snake_init
       \<and> positions Snake_init = [(320, 240)]
       \<and> length_snake Snake_init = 1"
proof -
  let ?s = "update_direction
              (s\<lparr>next_direction := Some (- fst (direction s), - snd (direction s))\<rparr>)"
  have dir: "direction ?s = (- fst (direction s), - snd (direction s))"
    and pos: "positions ?s = h # p # rest"
    using assms(2) by (simp_all add: update_direction_def)
  have "next_head h (direction ?s) = p"
    using assms(3) by (simp add: dir next_head_unfold)
  then have "next_head h (direction ?s) \<in> set (p # rest)"
    by simp
  with pos have "move ?s = Inr Snake_init"
    by (rule move_collision)
  then show ?thesis
    by (simp add: Snake_init_def SCREEN_WIDTH_def SCREEN_HEIGHT_def)
qed

theorem instant_reversal_resets_witness:
  "move (update_direction
           (\<lparr>position = (100, 100), body_color = SNAKE_COLOR, length_snake = 2,
             positions = [(100, 100), (80, 100)], direction = RIGHT,
             next_direction = None, last_snake = None\<rparr>\<lparr>next_direction := Some (- 1, 0)\<rparr>))
     = Inr Snake_init
   \<and> positions Snake_init = [(320, 240)]
   \<and> length_snake Snake_init = 1"
  using instant_reversal_resets [where h = "(100, 100)" and p = "(80, 100)" and rest = "[]" and
      s = "\<lparr>position = (100, 100), body_color = SNAKE_COLOR, length_snake = 2,
           positions = [(100, 100), (80, 100)], direction = RIGHT,
           next_direction = None, last_snake = None\<rparr>"]
  by (simp add: RIGHT_def)

subsection \<open>Facts about the high score store\<close>

lemma isdigit_digit_char: "d < 10 \<Longrightarrow> isdigit (digit_char d)"
  by (simp add: isdigit_def digit_char_def)

lemma digit_value_digit_char: "d < 10 \<Longrightarrow> digit_value (digit_char d) = int d"
  by (simp add: digit_value_def digit_char_def)

lemma isdigit_not_isspace: "isdigit c \<Longrightarrow> \<not> isspace c"
  by (auto simp: isdigit_def isspace_def)

lemma isdigit_not_sign: "isdigit c \<Longrightarrow> c \<noteq> CHR ''-'' \<and> c \<noteq> CHR ''+''"
  by (auto simp: isdigit_def)

lemma str_nat_digits: "c \<in> set (str_nat n) \<Longrightarrow> isdigit c"
proof (induction n arbitrary: c rule: str_nat.induct)
  case (1 n)
  show ?case
  proof (cases "n < 10")
    case True
    with "1.prems" show ?thesis
      by (subst (asm) str_nat.simps) (simp add: isdigit_digit_char)
  next
    case False
    with "1.prems" "1.IH" show ?thesis
      by (subst (asm) str_nat.simps) (auto simp: isdigit_digit_char)
  qed
qed

lemma str_nat_nonempty: "str_nat n \<noteq> []"
  by (subst str_nat.simps) simp

lemma parse_digits_all:
  "\<forall>c\<in>set cs. isdigit c \<Longrightarrow>
     parse_digits acc cs = Some (foldl (\<lambda>a c. 10 * a + digit_value c) acc cs)"
  by (induction acc cs rule: parse_digits.induct) simp_all

lemma foldl_str_nat:
  "foldl (\<lambda>a c. 10 * a + digit_value c) 0 (str_nat n) = int n"
proof (induction n rule: str_nat.induct)
  case (1 n)
  show ?case
  proof (cases "n < 10")
    case True
    then show ?thesis
      by (subst str_nat.simps) (simp add: digit_value_digit_char)
  next
    case False
    have "10 * int (n div 10) + int (n mod 10) = int n"
      by presburger
    with False "1.IH" show ?thesis
      by (subst str_nat.simps) (simp add: digit_value_digit_char)
  qed
qed

lemma parse_decimal_str_nat: "parse_decimal (str_nat n) = Some (int n)"
proof -
  obtain c cs where eq: "str_nat n = c # cs"
    using str_nat_nonempty [of n] by (cases "str_nat n") auto
  have dig: "\<forall>x\<in>set (c # cs). isdigit x"
    using str_nat_digits [of _ n] by (simp add: eq)
  have "parse_decimal (c # cs) = parse_digits (digit_value c) cs"
    using dig by (simp add: parse_decimal_def)
  also have "\<dots> = Some (foldl (\<lambda>a c. 10 * a + digit_value c) (digit_value c) cs)"
    using dig by (simp add: parse_digits_all)
  also have "\<dots> = Some (foldl (\<lambda>a c. 10 * a + digit_value c) 0 (c # cs))"
    by simp
  finally show ?thesis
    by (simp add: eq [symmetric] foldl_str_nat)
qed

lemma dropWhile_none: "\<forall>c\<in>set s. \<not> P c \<Longrightarrow> dropWhile P s = s"
  by (cases s) simp_all

lemma strip_no_space: "\<forall>c\<in>set s. \<not> isspace c \<Longrightarrow> strip s = s"
  by (simp add: strip_def dropWhile_none)

lemma int_strip_no_space: "\<forall>c\<in>set s. \<not> int_isspace c \<Longrightarrow> int_strip s = s"
  by (simp add: int_strip_def dropWhile_none)

lemma isdigit_not_int_isspace: "isdigit c \<Longrightarrow> \<not> int_isspace c"
  by (auto simp: isdigit_def int_isspace_def)

lemma strip_str_nat: "strip (str_nat n) = str_nat n"
  by (rule strip_no_space) (auto dest: str_nat_digits isdigit_not_isspace)

lemma int_strip_str_nat: "int_strip (str_nat n) = str_nat n"
  by (rule int_strip_no_space) (auto dest: str_nat_digits isdigit_not_int_isspace)

lemma filter_isdigit_str_nat: "filter isdigit (str_nat n) = str_nat n"
  by (simp add: filter_id_conv str_nat_digits)

lemma length_str_nat: "0 < k \<Longrightarrow> length (str_nat n) \<le> k \<longleftrightarrow> n < 10 ^ k"
proof (induction n arbitrary: k rule: str_nat.induct)
  case (1 n)
  show ?case
  proof (cases "n < 10")
    case True
    have "(10::nat) ^ 1 \<le> 10 ^ k"
      using "1.prems" by (intro power_increasing) simp_all
    with True have "n < 10 ^ k" by simp
    moreover have "length (str_nat n) = 1"
      using True by (subst str_nat.simps) simp
    ultimately show ?thesis
      using "1.prems" by simp
  next
    case False
    have len: "length (str_nat n) = Suc (length (str_nat (n div 10)))"
      using False by (subst str_nat.simps) simp
    show ?thesis
    proof (cases "k = 1")
      case True
      have "0 < length (str_nat (n div 10))"
        using str_nat_nonempty by simp
      with len True False show ?thesis by simp
    next
      case ne: False
      with "1.prems" obtain j where k: "k = Suc j" and j: "0 < j"
        by (cases k) auto
      have "length (str_nat (n div 10)) \<le> j \<longleftrightarrow> n div 10 < 10 ^ j"
        using False j by (rule "1.IH")
      also have "\<dots> \<longleftrightarrow> n < 10 ^ k"
        by (simp add: k div_less_iff_less_mult mult.commute)
      finally show ?thesis
        by (simp add: len k)
    qed
  qed
qed

lemma MAX_STR_DIGITS_pos: "0 < MAX_STR_DIGITS"
  by (simp add: MAX_STR_DIGITS_def)

lemma py_int_str_nat:
  assumes "n < 10 ^ MAX_STR_DIGITS"
  shows "py_int (str_nat n) = Inr (int n)"
proof -
  obtain c cs where eq: "str_nat n = c # cs"
    using str_nat_nonempty [of n] by (cases "str_nat n") auto
  have "isdigit c"
    using str_nat_digits [of c n] by (simp add: eq)
  then have sign: "c \<noteq> CHR ''-''" "c \<noteq> CHR ''+''"
    using isdigit_not_sign by blast+
  have short: "\<not> length (filter isdigit (c # cs)) > MAX_STR_DIGITS"
    using assms length_str_nat [OF MAX_STR_DIGITS_pos, of n] filter_isdigit_str_nat [of n]
    by (simp only: eq [symmetric]) simp
  have st: "int_strip (c # cs) = c # cs"
    using int_strip_str_nat [of n] by (simp add: eq)
  have pd: "parse_decimal (c # cs) = Some (int n)"
    using parse_decimal_str_nat [of n] by (simp add: eq)
  show ?thesis
    unfolding py_int_def eq Let_def st using sign short pd
    by (simp del: filter.simps)
qed

lemma py_str_small:
  assumes "0 \<le> v" and "v < 10 ^ MAX_STR_DIGITS"
  shows "py_str v = Inr (str_nat (nat v))"
proof -
  have "nat v < 10 ^ MAX_STR_DIGITS"
    using assms by (simp add: nat_less_iff)
  then have "length (str_nat (nat v)) \<le> MAX_STR_DIGITS"
    using length_str_nat [OF MAX_STR_DIGITS_pos] by simp
  with assms(1) show ?thesis
    by (simp add: py_str_def Let_def)
qed

lemma py_str_big:
  assumes "10 ^ MAX_STR_DIGITS \<le> v"
  shows "py_str v = Inl ValueError"
proof -
  have "(0::int) \<le> 10 ^ MAX_STR_DIGITS" by simp
  with assms have nn: "0 \<le> v" by linarith
  have "\<not> nat v < 10 ^ MAX_STR_DIGITS"
    using assms nn by (simp add: nat_less_iff)
  then have "\<not> length (str_nat (nat v)) \<le> MAX_STR_DIGITS"
    using length_str_nat [OF MAX_STR_DIGITS_pos] by simp
  with nn show ?thesis
    by (simp add: py_str_def Let_def)
qed

lemma py_int_cases: "py_int s = Inl ValueError \<or> (\<exists>n. py_int s = Inr n)"
  by (simp add: py_int_def Let_def split: option.splits)

lemma load_high_score_absent: "contents st = None \<Longrightarrow> load_high_score st = Inr 0"
  by (simp add: load_high_score_def)

lemma load_high_score_readable:
  "contents st = Some text \<Longrightarrow> readable st \<Longrightarrow>
     load_high_score st = Inr (case py_int (strip text) of Inl e \<Rightarrow> 0 | Inr n \<Rightarrow> n)"
  using py_int_cases [of "strip text"] by (auto simp: load_high_score_def)

lemma load_high_score_unreadable:
  "contents st = Some text \<Longrightarrow> \<not> readable st \<Longrightarrow> load_high_score st = Inl OSError"
  by (simp add: load_high_score_def)

lemma small_below_limit: "(42::int) < 10 ^ MAX_STR_DIGITS"
proof -
  have "(10::int) ^ 2 \<le> 10 ^ MAX_STR_DIGITS"
    by (rule power_increasing) (simp_all add: MAX_STR_DIGITS_def)
  then show ?thesis by simp
qed

text \<open>
  C5, as the code has it. For every non-negative integer \<open>v\<close> of at most
  \<open>MAX_STR_DIGITS\<close> decimal digits, on a store that can be opened for writing and for
  reading, saving \<open>v\<close> succeeds and loading afterwards returns \<open>v\<close>, whatever the store
  held before.
\<close>

theorem save_load_roundtrip:
  assumes "0 \<le> v" and "v < 10 ^ MAX_STR_DIGITS" and "writable st" and "readable st"
  shows "\<exists>st'. save_high_score v st = (Inr (), st') \<and> load_high_score st' = Inr v"
proof -
  have s: "save_high_score v st = (Inr (), st\<lparr>contents := Some (str_nat (nat v))\<rparr>)"
    using assms by (simp add: save_high_score_def py_str_small)
  have "nat v < 10 ^ MAX_STR_DIGITS"
    using assms by (simp add: nat_less_iff)
  then have "py_int (str_nat (nat v)) = Inr (int (nat v))"
    by (rule py_int_str_nat)
  then have "load_high_score (st\<lparr>contents := Some (str_nat (nat v))\<rparr>) = Inr v"
    using assms by (simp add: load_high_score_def strip_str_nat)
  with s show ?thesis by blast
qed

theorem save_load_roundtrip_witness:
  "\<exists>st'. save_high_score 42 \<lparr>contents = None, readable = True, writable = True\<rparr> = (Inr (), st')
         \<and> load_high_score st' = Inr 42"
  using save_load_roundtrip [of 42 "\<lparr>contents = None, readable = True, writable = True\<rparr>"]
    small_below_limit
  by simp

text \<open>
  C5 as stated fails. An integer of \<open>MAX_STR_DIGITS + 1\<close> digits is not saved: the file
  has been emptied when \<^verbatim>\<open>str\<close> raises \<^verbatim>\<open>ValueError\<close>, and loading then returns 0. On
  a store that cannot be opened for writing, saving raises \<^verbatim>\<open>OSError\<close> and loading
  returns what the store held.
\<close>

theorem save_load_roundtrip_counterexample:
  "save_high_score (10 ^ MAX_STR_DIGITS) \<lparr>contents = None, readable = True, writable = True\<rparr>
     = (Inl ValueError, \<lparr>contents = Some [], readable = True, writable = True\<rparr>)
   \<and> load_high_score \<lparr>contents = Some [], readable = True, writable = True\<rparr> = Inr 0
   \<and> (0::int) < 10 ^ MAX_STR_DIGITS
   \<and> save_high_score 42 \<lparr>contents = Some ''7'', readable = True, writable = False\<rparr>
     = (Inl OSError, \<lparr>contents = Some ''7'', readable = True, writable = False\<rparr>)
   \<and> load_high_score \<lparr>contents = Some ''7'', readable = True, writable = False\<rparr> = Inr 7"
proof -
  have "py_str (10 ^ MAX_STR_DIGITS) = Inl ValueError"
    by (rule py_str_big) simp
  then have a: "save_high_score (10 ^ MAX_STR_DIGITS)
       \<lparr>contents = None, readable = True, writable = True\<rparr>
     = (Inl ValueError, \<lparr>contents = Some [], readable = True, writable = True\<rparr>)"
    by (simp add: save_high_score_def)
  have b: "load_high_score \<lparr>contents = Some [], readable = True, writable = True\<rparr> = Inr 0"
    by (simp add: load_high_score_def py_int_def strip_def int_strip_def)
  have c: "save_high_score 42 \<lparr>contents = Some ''7'', readable = True, writable = False\<rparr>
     = (Inl OSError, \<lparr>contents = Some ''7'', readable = True, writable = False\<rparr>)"
    by (simp add: save_high_score_def)
  have d: "load_high_score \<lparr>contents = Some ''7'', readable = True, writable = False\<rparr> = Inr 7"
    by code_simp
  from a b c d show ?thesis by simp
qed

text \<open>
  C6, as the code has it. Loading returns 0 when the store is absent, and 0 when the
  store can be read and its stripped contents are not a valid integer. Whenever the
  store is absent or can be opened for reading, loading returns an integer and raises
  nothing. A store that exists and cannot be opened makes it raise \<^verbatim>\<open>OSError\<close>.
\<close>

theorem load_high_score_defaults:
  "(contents st = None \<longrightarrow> load_high_score st = Inr 0)
   \<and> (contents st = Some text \<and> readable st \<and> py_int (strip text) = Inl ValueError
        \<longrightarrow> load_high_score st = Inr 0)
   \<and> (contents st = None \<or> readable st \<longrightarrow> (\<exists>n. load_high_score st = Inr n))
   \<and> (contents st = Some text \<and> \<not> readable st \<longrightarrow> load_high_score st = Inl OSError)"
proof (intro conjI impI)
  show "load_high_score st = Inr 0" if "contents st = None"
    using that by (rule load_high_score_absent)
  show "load_high_score st = Inr 0"
    if "contents st = Some text \<and> readable st \<and> py_int (strip text) = Inl ValueError"
    using that by (simp add: load_high_score_readable)
  show "\<exists>n. load_high_score st = Inr n" if "contents st = None \<or> readable st"
  proof (cases "contents st")
    case None
    then show ?thesis by (simp add: load_high_score_absent)
  next
    case (Some t)
    with that show ?thesis by (simp add: load_high_score_readable)
  qed
  show "load_high_score st = Inl OSError" if "contents st = Some text \<and> \<not> readable st"
    using that by (simp add: load_high_score_unreadable)
qed

theorem load_high_score_defaults_witness:
  "load_high_score \<lparr>contents = None, readable = False, writable = True\<rparr> = Inr 0
   \<and> py_int (strip ''abc'') = Inl ValueError
   \<and> load_high_score \<lparr>contents = Some ''abc'', readable = True, writable = True\<rparr> = Inr 0
   \<and> (\<exists>n. load_high_score \<lparr>contents = Some '' 12 '', readable = True, writable = False\<rparr> = Inr n)
   \<and> load_high_score \<lparr>contents = Some ''12'', readable = False, writable = True\<rparr> = Inl OSError"
proof -
  have bad: "py_int (strip ''abc'') = Inl ValueError"
    by (simp add: py_int_def strip_def int_strip_def isspace_def int_isspace_def
        parse_decimal_def isdigit_def)
  from load_high_score_defaults [of "\<lparr>contents = None, readable = False, writable = True\<rparr>"]
  have a: "load_high_score \<lparr>contents = None, readable = False, writable = True\<rparr> = Inr 0"
    by simp
  from load_high_score_defaults
    [of "\<lparr>contents = Some ''abc'', readable = True, writable = True\<rparr>" "''abc''"] bad
  have b: "load_high_score \<lparr>contents = Some ''abc'', readable = True, writable = True\<rparr> = Inr 0"
    by simp
  from load_high_score_defaults
    [of "\<lparr>contents = Some '' 12 '', readable = True, writable = False\<rparr>"]
  have c: "\<exists>n. load_high_score \<lparr>contents = Some '' 12 '', readable = True, writable = False\<rparr>
             = Inr n"
    by simp
  from load_high_score_defaults
    [of "\<lparr>contents = Some ''12'', readable = False, writable = True\<rparr>" "''12''"]
  have d: "load_high_score \<lparr>contents = Some ''12'', readable = False, writable = True\<rparr>
             = Inl OSError"
    by simp
  from a bad b c d show ?thesis by simp
qed

text \<open>
  C6 as stated fails: a store that exists but cannot be opened for reading makes
  \<^verbatim>\<open>load_high_score\<close> raise \<^verbatim>\<open>OSError\<close> to its caller.
\<close>

theorem load_high_score_raises:
  "load_high_score \<lparr>contents = Some ''5'', readable = False, writable = False\<rparr> = Inl OSError"
  by (simp add: load_high_score_def)

subsection \<open>Facts about the entities\<close>

lemma finite_ALL_CELLS: "finite ALL_CELLS"
  by (simp add: ALL_CELLS_def)

lemma set_py_list_available:
  "set (py_list (get_available_positions ps)) = ALL_CELLS - set ps"
  by (simp add: py_list_def get_available_positions_def finite_ALL_CELLS)

lemma choice_member: "xs \<noteq> [] \<Longrightarrow> \<exists>x. choice r xs = Inr x \<and> x \<in> set xs"
  by (simp add: choice_def)

lemma choice_reaches: "x \<in> set xs \<Longrightarrow> \<exists>r. choice r xs = Inr x"
proof -
  assume "x \<in> set xs"
  then obtain i where "i < length xs" "xs ! i = x"
    by (auto simp: in_set_conv_nth)
  then have "choice i xs = Inr x"
    by (auto simp: choice_def)
  then show ?thesis ..
qed

lemma choice_available:
  assumes "ALL_CELLS - set ps \<noteq> {}"
  shows "\<exists>p. choice r (py_list (get_available_positions ps)) = Inr p
             \<and> p \<in> ALL_CELLS \<and> p \<notin> set ps"
proof -
  have "py_list (get_available_positions ps) \<noteq> []"
    using assms set_py_list_available [of ps] by auto
  from choice_member [OF this, of r] show ?thesis
    by (auto simp: set_py_list_available)
qed

lemma origin_cell: "(0, 0) \<in> ALL_CELLS"
  unfolding ALL_CELLS_iff by (rule exI [of _ 0], rule exI [of _ 0]) simp

text \<open>
  C8. When the snake's cells are board cells and do not fill the board,
  \<^verbatim>\<open>randomize_position\<close> of each of the three entity classes succeeds and, for every
  draw \<open>r\<close> of the generator, the position it assigns is a board cell that is not
  one of the snake's.
\<close>

theorem randomize_position_free:
  assumes "set snake_positions \<subseteq> ALL_CELLS" and "set snake_positions \<noteq> ALL_CELLS"
  shows "(\<exists>obj'. Apple_randomize_position r snake_positions obj = Inr obj'
             \<and> position obj' \<in> ALL_CELLS \<and> position obj' \<notin> set snake_positions)
       \<and> (\<exists>obj'. BadFood_randomize_position r snake_positions obj = Inr obj'
             \<and> position obj' \<in> ALL_CELLS \<and> position obj' \<notin> set snake_positions)
       \<and> (\<exists>obj'. Obstacle_randomize_position r snake_positions obj = Inr obj'
             \<and> position obj' \<in> ALL_CELLS \<and> position obj' \<notin> set snake_positions)"
proof -
  have "ALL_CELLS - set snake_positions \<noteq> {}"
    using assms by auto
  from choice_available [OF this, of r] obtain p where
    "choice r (py_list (get_available_positions snake_positions)) = Inr p"
    "p \<in> ALL_CELLS" "p \<notin> set snake_positions"
    by blast
  then show ?thesis
    by (simp add: Apple_randomize_position_def BadFood_randomize_position_def
        Obstacle_randomize_position_def)
qed

theorem randomize_position_free_witness:
  "set [(320, 240)] \<subseteq> ALL_CELLS \<and> set [(320, 240)] \<noteq> ALL_CELLS
   \<and> (\<exists>obj'. Apple_randomize_position 7 [(320, 240)] (GameObject_init (0, 0) APPLE_COLOR) = Inr obj'
          \<and> position obj' \<in> ALL_CELLS \<and> position obj' \<notin> set [(320, 240)])"
proof -
  have c: "(320, 240) \<in> ALL_CELLS"
    unfolding ALL_CELLS_iff by (rule exI [of _ 16], rule exI [of _ 12]) simp
  have sub: "set [(320, 240)] \<subseteq> ALL_CELLS"
    using c by simp
  have ne: "set [(320::int, 240::int)] \<noteq> ALL_CELLS"
  proof
    assume "set [(320::int, 240::int)] = ALL_CELLS"
    with origin_cell have "(0::int, 0::int) \<in> set [(320, 240)]"
      by (simp only:)
    then show False by simp
  qed
  from randomize_position_free [OF sub ne, of 7 "GameObject_init (0, 0) APPLE_COLOR"] sub ne
  show ?thesis by blast
qed

subsection \<open>Facts about the input\<close>

text \<open>
  C3. What \<^verbatim>\<open>handle_keys\<close> does when a key it does not know follows an arrow key in
  the events of one frame: the branch for the remaining keys assigns
  \<^verbatim>\<open>direction_map.get(event.key)\<close>, which is \<^verbatim>\<open>None\<close>, to \<^verbatim>\<open>next_direction\<close>, so
  the direction the arrow key had queued is gone; the speed is unchanged.
\<close>

theorem unrecognized_key_clears_pending_direction:
  "handle_keys [KEYDOWN K_UP] Snake_init 10
     = Inr (Snake_init\<lparr>next_direction := Some UP\<rparr>, 10)
   \<and> handle_keys [KEYDOWN K_UP, KEYDOWN (K_OTHER 97)] Snake_init 10
     = Inr (Snake_init\<lparr>next_direction := None\<rparr>, 10)"
  by (simp add: direction_map_def)

subsection \<open>Facts about the game loop\<close>

lemma handle_keys_body:
  "handle_keys events s sp = Inr (s', sp') \<Longrightarrow>
     positions s' = positions s \<and> length_snake s' = length_snake s"
  by (induction events s sp rule: handle_keys.induct) (auto split: if_splits)

lemma update_direction_body:
  "positions (update_direction s) = positions s"
  "length_snake (update_direction s) = length_snake s"
  by (simp_all add: update_direction_def split: option.splits)

lemma move_keeps_length_snake:
  "move s = Inr s' \<Longrightarrow> \<not> self_collision s \<Longrightarrow> length_snake s' = length_snake s"
  by (auto simp: move_def get_head_position_def self_collision_def Let_def
           split: list.splits if_splits)

lemma move_balanced:
  assumes "move s = Inr s'" and "\<not> self_collision s"
    and "int (length (positions s)) = length_snake s"
  shows "int (length (positions s')) = length_snake s'"
proof -
  obtain h t where ps: "positions s = h # t"
    using assms(1) by (cases "positions s") (auto simp: move_def get_head_position_def)
  have free: "next_head h (direction s) \<notin> set t"
    using assms(2) ps by (simp add: self_collision_def)
  have "int (length t) + 2 > length_snake s"
    using assms(3) ps by simp
  with move_free [OF ps free] assms(1) assms(3) ps show ?thesis
    by auto
qed

lemma available_nonempty_single: "ALL_CELLS - set [c] \<noteq> {}"
proof (cases "c = (0, 0)")
  case True
  have "(20, 0) \<in> ALL_CELLS"
    unfolding ALL_CELLS_iff by (rule exI [of _ 1], rule exI [of _ 0]) simp
  with True show ?thesis by auto
next
  case False
  with origin_cell show ?thesis by auto
qed

lemma available_nonempty_nil: "ALL_CELLS - set [] \<noteq> {}"
  using origin_cell by auto

lemma tick_input_body:
  "tick_input events g = Inr g1 \<Longrightarrow>
     positions (snake g1) = positions (snake g)
     \<and> length_snake (snake g1) = length_snake (snake g)
     \<and> high_score_file g1 = high_score_file g"
  by (auto simp: tick_input_def split: sum.splits dest: handle_keys_body)


lemma tick_move_balanced:
  assumes "tick_move g1 = Inr g2" and "\<not> self_collision (update_direction (snake g1))"
    and "int (length (positions (snake g1))) = length_snake (snake g1)"
  shows "int (length (positions (snake g2))) = length_snake (snake g2)"
proof -
  from assms(1) have mv: "move (update_direction (snake g1)) = Inr (snake g2)"
    by (auto simp: tick_move_def split: sum.splits)
  from move_balanced [OF mv assms(2)] assms(3) show ?thesis
    by (simp add: update_direction_body)
qed

lemma tick_apple_effect:
  assumes "tick_apple ra g2 = Inr g3"
  shows "positions (snake g3) = positions (snake g2)
       \<and> length_snake (snake g3) = length_snake (snake g2) + (if apple_eaten g2 then 1 else 0)
       \<and> high_score_file g3 = high_score_file g2"
  using assms
  by (auto simp: tick_apple_def apple_eaten_def Let_def split: sum.splits if_splits)

lemma tick_bad_food_shrink:
  assumes "tick_bad_food rb g3 = Inr g4" and "\<not> bad_food_resets g3"
  shows "length_snake (snake g4) - int (length (positions (snake g4)))
           = length_snake (snake g3) - int (length (positions (snake g3)))
       \<and> high_score_file g4 = high_score_file g3"
proof (cases "get_head_position (snake g3) = Inr (position (bad_food g3))")
  case True
  with assms(2) have big: "length_snake (snake g3) > 1"
    by (simp add: bad_food_resets_def)
  from True have ne: "positions (snake g3) \<noteq> []"
    by (auto simp: get_head_position_def)
  then have "int (length (butlast (positions (snake g3)))) = int (length (positions (snake g3))) - 1"
    by (cases "positions (snake g3)") simp_all
  with assms(1) True big show ?thesis
    by (auto simp: tick_bad_food_def and_then_def split: sum.splits)
next
  case False
  with assms(1) show ?thesis
    by (auto simp: tick_bad_food_def split: sum.splits)
qed

lemma tick_obstacle_miss:
  "tick_obstacle ro g4 = Inr g5 \<Longrightarrow> \<not> obstacle_hit g4 \<Longrightarrow> g5 = g4"
  by (auto simp: tick_obstacle_def obstacle_hit_def split: sum.splits)

lemma tick_chain:
  assumes "tick_input events g = Inr g1" "tick_move g1 = Inr g2" "tick_apple ra g2 = Inr g3"
    "tick_bad_food rb g3 = Inr g4" "tick_obstacle ro g4 = Inr g5"
  shows "tick ra rb ro events g = Inr g5"
  using assms by (simp add: tick_def and_then_def)

lemma move_grows:
  assumes "move s = Inr s'" and "\<not> self_collision s"
    and "int (length (positions s)) = length_snake s - 1"
  shows "tl (positions s') = positions s \<and> int (length (positions s')) = length_snake s'"
proof -
  obtain h t where ps: "positions s = h # t"
    using assms(1) by (cases "positions s") (auto simp: move_def get_head_position_def)
  have free: "next_head h (direction s) \<notin> set t"
    using assms(2) ps by (simp add: self_collision_def)
  have "\<not> int (length t) + 2 > length_snake s"
    using assms(3) ps by simp
  with move_free [OF ps free] assms(1) assms(3) ps show ?thesis
    by auto
qed

lemma move_keeps_count:
  assumes "move s = Inr s'" and "\<not> self_collision s"
    and "int (length (positions s)) = length_snake s"
  shows "length (positions s') = length (positions s)"
proof -
  obtain h t where ps: "positions s = h # t"
    using assms(1) by (cases "positions s") (auto simp: move_def get_head_position_def)
  have free: "next_head h (direction s) \<notin> set t"
    using assms(2) ps by (simp add: self_collision_def)
  have "int (length t) + 2 > length_snake s"
    using assms(3) ps by simp
  with move_free [OF ps free] assms(1) ps show ?thesis
    by auto
qed

lemma tick_move_snake:
  "tick_move g1 = Inr g2 \<Longrightarrow> move (update_direction (snake g1)) = Inr (snake g2)"
  by (auto simp: tick_move_def split: sum.splits)

lemma tick_tail:
  assumes "tick_apple ra g2 = Inr g3" and "\<not> bad_food_resets g3"
    and "tick_bad_food rb g3 = Inr g4" and "\<not> obstacle_hit g4"
    and "tick_obstacle ro g4 = Inr g5"
    and "int (length (positions (snake g2))) = length_snake (snake g2)"
  shows "if apple_eaten g2
         then int (length (positions (snake g5))) = length_snake (snake g5) - 1
         else int (length (positions (snake g5))) = length_snake (snake g5)"
proof -
  have b3: "length_snake (snake g3) - int (length (positions (snake g3)))
              = (if apple_eaten g2 then 1 else 0)"
    using tick_apple_effect [OF assms(1)] assms(6) by simp
  have b4: "length_snake (snake g4) - int (length (positions (snake g4)))
              = (if apple_eaten g2 then 1 else 0)"
    using tick_bad_food_shrink [OF assms(3) assms(2)] b3 by simp
  have "g5 = g4"
    using assms(5) assms(4) by (rule tick_obstacle_miss)
  with b4 show ?thesis
    by (simp split: if_splits)
qed

text \<open>
  C4. Take a tick in which the snake neither runs into itself, nor is reset by the bad
  food, nor hits the obstacle; \<open>g2\<close> is the state after the move and \<open>g5\<close> the state
  at the end of the tick. If the tick starts with as many body cells as the snake's
  length, the move keeps the number of cells; if it starts with growth pending, one
  cell fewer than the length, the move removes no cell, so the old body is the tail of
  the new one. In both cases the number of cells equals the length after the move, and
  at the end of the tick it equals the length again, unless the apple was eaten in this
  tick: then the length is one more than the number of cells, the growth the next move
  realises.
\<close>

theorem tick_restores_length:
  assumes "tick_input events g = Inr g1"
    and "\<not> self_collision (update_direction (snake g1))"
    and "tick_move g1 = Inr g2"
    and "tick_apple ra g2 = Inr g3"
    and "\<not> bad_food_resets g3"
    and "tick_bad_food rb g3 = Inr g4"
    and "\<not> obstacle_hit g4"
    and "tick_obstacle ro g4 = Inr g5"
  shows "tick ra rb ro events g = Inr g5
       \<and> (int (length (positions (snake g))) = length_snake (snake g) \<longrightarrow>
            length (positions (snake g2)) = length (positions (snake g))
          \<and> int (length (positions (snake g2))) = length_snake (snake g2)
          \<and> (if apple_eaten g2
              then int (length (positions (snake g5))) = length_snake (snake g5) - 1
              else int (length (positions (snake g5))) = length_snake (snake g5)))
       \<and> (int (length (positions (snake g))) = length_snake (snake g) - 1 \<longrightarrow>
            tl (positions (snake g2)) = positions (snake g)
          \<and> int (length (positions (snake g2))) = length_snake (snake g2)
          \<and> (if apple_eaten g2
              then int (length (positions (snake g5))) = length_snake (snake g5) - 1
              else int (length (positions (snake g5))) = length_snake (snake g5)))"
proof (intro conjI impI)
  show "tick ra rb ro events g = Inr g5"
    using assms(1,3,4,6,8) by (rule tick_chain)
  note in1 = tick_input_body [OF assms(1)]
  note mv = tick_move_snake [OF assms(3)]
  note rest = tick_tail [OF assms(4) assms(5) assms(6) assms(7) assms(8)]
  {
    assume bal: "int (length (positions (snake g))) = length_snake (snake g)"
    then have b1: "int (length (positions (update_direction (snake g1))))
                     = length_snake (update_direction (snake g1))"
      using in1 by (simp add: update_direction_body)
    from move_keeps_count [OF mv assms(2) b1]
    show "length (positions (snake g2)) = length (positions (snake g))"
      using in1 by (simp add: update_direction_body)
    from move_balanced [OF mv assms(2) b1]
    show b2: "int (length (positions (snake g2))) = length_snake (snake g2)" .
    from rest [OF b2]
    show "if apple_eaten g2
          then int (length (positions (snake g5))) = length_snake (snake g5) - 1
          else int (length (positions (snake g5))) = length_snake (snake g5)" .
  }
  {
    assume pend: "int (length (positions (snake g))) = length_snake (snake g) - 1"
    then have p1: "int (length (positions (update_direction (snake g1))))
                     = length_snake (update_direction (snake g1)) - 1"
      using in1 by (simp add: update_direction_body)
    from move_grows [OF mv assms(2) p1]
    show "tl (positions (snake g2)) = positions (snake g)"
      using in1 by (simp add: update_direction_body)
    from move_grows [OF mv assms(2) p1]
    show b2: "int (length (positions (snake g2))) = length_snake (snake g2)"
      by simp
    from rest [OF b2]
    show "if apple_eaten g2
          then int (length (positions (snake g5))) = length_snake (snake g5) - 1
          else int (length (positions (snake g5))) = length_snake (snake g5)" .
  }
qed

lemma py_str_1: "py_str 1 = Inr ''1''"
  by code_simp

lemma randomize_single:
  "\<exists>p. Apple_randomize_position r [c] obj = Inr (obj\<lparr>position := p\<rparr>)"
  "\<exists>p. BadFood_randomize_position r [c] obj = Inr (obj\<lparr>position := p\<rparr>)"
  "\<exists>p. Obstacle_randomize_position r [c] obj = Inr (obj\<lparr>position := p\<rparr>)"
proof -
  obtain p where "choice r (py_list (get_available_positions [c])) = Inr p"
    using choice_available [OF available_nonempty_single] by blast
  then have "Apple_randomize_position r [c] obj = Inr (obj\<lparr>position := p\<rparr>)"
    "BadFood_randomize_position r [c] obj = Inr (obj\<lparr>position := p\<rparr>)"
    "Obstacle_randomize_position r [c] obj = Inr (obj\<lparr>position := p\<rparr>)"
    by (simp_all add: Apple_randomize_position_def BadFood_randomize_position_def
        Obstacle_randomize_position_def)
  then show "\<exists>p. Apple_randomize_position r [c] obj = Inr (obj\<lparr>position := p\<rparr>)"
    "\<exists>p. BadFood_randomize_position r [c] obj = Inr (obj\<lparr>position := p\<rparr>)"
    "\<exists>p. Obstacle_randomize_position r [c] obj = Inr (obj\<lparr>position := p\<rparr>)"
    by blast+
qed

lemma randomize_nil:
  "\<exists>p. BadFood_randomize_position r [] obj = Inr (obj\<lparr>position := p\<rparr>)"
proof -
  obtain p where "choice r (py_list (get_available_positions [])) = Inr p"
    using choice_available [OF available_nonempty_nil] by blast
  then have "BadFood_randomize_position r [] obj = Inr (obj\<lparr>position := p\<rparr>)"
    by (simp add: BadFood_randomize_position_def)
  then show ?thesis by blast
qed

lemma move_Snake_init:
  "move (update_direction Snake_init) =
     Inr (Snake_init\<lparr>positions := [(340, 240)], last_snake := Some (320, 240),
                     position := (340, 240)\<rparr>)"
  by (simp add: move_def update_direction_def get_head_position_def Snake_init_def
      next_head_unfold RIGHT_def SCREEN_WIDTH_def SCREEN_HEIGHT_def Let_def)

text \<open>
  C10. What a tick does when the apple and the bad food lie on the same cell and a snake
  of one cell moves onto it: the apple raises the length to 2, so the guard
  \<^verbatim>\<open>snake.length > 1\<close> of the bad food holds and \<^verbatim>\<open>positions.pop()\<close> removes the only
  cell. The body is empty after the bad-food block, and the read of the head in the
  obstacle test raises \<^verbatim>\<open>IndexError\<close>. This holds for every draw of the generator
  and every content of the store.
\<close>

theorem bad_food_pop_empties_body:
  "\<exists>g4. and_then (tick_input []
            \<lparr>snake = Snake_init,
             apple = GameObject_init (340, 240) APPLE_COLOR,
             bad_food = GameObject_init (340, 240) BAD_FOOD_COLOR,
             obstacle = GameObject_init (0, 0) OBSTACLE_COLOR,
             current_speed = SPEED, high_score_file = st\<rparr>)
          (\<lambda>g1. and_then (tick_move g1)
          (\<lambda>g2. and_then (tick_apple ra g2) (tick_bad_food rb))) = Inr g4
      \<and> positions (snake g4) = []
      \<and> length_snake (snake g4) = 1
      \<and> get_head_position (snake g4) = Inl IndexError
      \<and> tick ra rb ro []
            \<lparr>snake = Snake_init,
             apple = GameObject_init (340, 240) APPLE_COLOR,
             bad_food = GameObject_init (340, 240) BAD_FOOD_COLOR,
             obstacle = GameObject_init (0, 0) OBSTACLE_COLOR,
             current_speed = SPEED, high_score_file = st\<rparr> = Inl IndexError"
proof -
  define g where "g = \<lparr>snake = Snake_init,
             apple = GameObject_init (340, 240) APPLE_COLOR,
             bad_food = GameObject_init (340, 240) BAD_FOOD_COLOR,
             obstacle = GameObject_init (0, 0) OBSTACLE_COLOR,
             current_speed = SPEED, high_score_file = st\<rparr>"
  define s2 where "s2 = Snake_init\<lparr>positions := [(340, 240)], last_snake := Some (320, 240),
                     position := (340, 240)\<rparr>"
  define g2 where "g2 = g\<lparr>snake := s2\<rparr>"
  have i: "tick_input [] g = Inr g"
    by (simp add: tick_input_def g_def)
  have m: "tick_move g = Inr g2"
    by (simp add: tick_move_def g_def g2_def s2_def move_Snake_init)
  obtain pa where a: "Apple_randomize_position ra [(340, 240)] (apple g)
                        = Inr ((apple g)\<lparr>position := pa\<rparr>)"
    using randomize_single(1) by blast
  define g3 where "g3 = g2\<lparr>snake := s2\<lparr>length_snake := 2\<rparr>, apple := (apple g)\<lparr>position := pa\<rparr>\<rparr>"
  have ap: "tick_apple ra g2 = Inr g3"
    using a by (simp add: tick_apple_def g2_def g3_def s2_def g_def get_head_position_def
        GameObject_init_def Snake_init_def)
  obtain pb where b: "BadFood_randomize_position rb [] (bad_food g)
                        = Inr ((bad_food g)\<lparr>position := pb\<rparr>)"
    using randomize_nil by blast
  define g4 where "g4 = g3\<lparr>snake := s2\<lparr>length_snake := 1, positions := []\<rparr>,
                           bad_food := (bad_food g)\<lparr>position := pb\<rparr>\<rparr>"
  have bf: "tick_bad_food rb g3 = Inr g4"
    using b by (simp add: tick_bad_food_def and_then_def g2_def g3_def g4_def s2_def g_def
        get_head_position_def GameObject_init_def Snake_init_def)
  have e: "positions (snake g4) = []" "length_snake (snake g4) = 1"
    by (simp_all add: g4_def)
  then have h: "get_head_position (snake g4) = Inl IndexError"
    by (simp add: get_head_position_def)
  then have ob: "tick_obstacle ro g4 = Inl IndexError"
    by (simp add: tick_obstacle_def)
  have t: "tick ra rb ro [] g = Inl IndexError"
    by (simp add: tick_def and_then_def i m ap bf ob)
  have c: "and_then (tick_input [] g)
          (\<lambda>g1. and_then (tick_move g1)
          (\<lambda>g2. and_then (tick_apple ra g2) (tick_bad_food rb))) = Inr g4"
    by (simp add: and_then_def i m ap bf)
  from c e h t show ?thesis
    unfolding g_def by blast
qed

text \<open>The state of that scenario is one \<^verbatim>\<open>main\<close> can start the loop in.\<close>

lemma main_init_reaches:
  "\<exists>ra rb ro. main_init ra rb ro \<lparr>contents = None, readable = True, writable = True\<rparr> =
     Inr \<lparr>snake = Snake_init,
          apple = GameObject_init (340, 240) APPLE_COLOR,
          bad_food = GameObject_init (340, 240) BAD_FOOD_COLOR,
          obstacle = GameObject_init (0, 0) OBSTACLE_COLOR,
          current_speed = SPEED, high_score_file = \<lparr>contents = Some ''1'', readable = True, writable = True\<rparr>\<rparr>"
proof -
  have "(340, 240) \<in> ALL_CELLS"
    unfolding ALL_CELLS_iff by (rule exI [of _ 17], rule exI [of _ 12]) simp
  then have c1: "(340, 240) \<in> set (py_list (get_available_positions [(320, 240)]))"
    unfolding set_py_list_available by simp
  have c0: "(0, 0) \<in> set (py_list (get_available_positions [(320, 240)]))"
    unfolding set_py_list_available using origin_cell by simp
  obtain ra where ra: "choice ra (py_list (get_available_positions [(320, 240)])) = Inr (340, 240)"
    using choice_reaches [OF c1] by blast
  obtain ro where ro: "choice ro (py_list (get_available_positions [(320, 240)])) = Inr (0, 0)"
    using choice_reaches [OF c0] by blast
  have ct: "store_after (change_title 1 \<lparr>contents = None, readable = True, writable = True\<rparr>) = Inr \<lparr>contents = Some ''1'', readable = True, writable = True\<rparr>"
    by (simp add: store_after_def change_title_def load_high_score_def save_high_score_def
        py_str_1)
  have "main_init ra ra ro \<lparr>contents = None, readable = True, writable = True\<rparr> =
     Inr \<lparr>snake = Snake_init,
          apple = GameObject_init (340, 240) APPLE_COLOR,
          bad_food = GameObject_init (340, 240) BAD_FOOD_COLOR,
          obstacle = GameObject_init (0, 0) OBSTACLE_COLOR,
          current_speed = SPEED, high_score_file = \<lparr>contents = Some ''1'', readable = True, writable = True\<rparr>\<rparr>"
    using ra ro ct
    by (simp add: main_init_def and_then_def Apple_init_def BadFood_init_def Obstacle_init_def
        Apple_randomize_position_def BadFood_randomize_position_def
        Obstacle_randomize_position_def GameObject_init_def Snake_init_def
        SCREEN_WIDTH_def SCREEN_HEIGHT_def)
  then show ?thesis by blast
qed

theorem tick_restores_length_witness:
  "(\<exists>g2 g5.
      tick_move \<lparr>snake = Snake_init\<lparr>next_direction := Some DOWN\<rparr>,
                 apple = GameObject_init (320, 260) APPLE_COLOR,
                 bad_food = GameObject_init (0, 0) BAD_FOOD_COLOR,
                 obstacle = GameObject_init (20, 0) OBSTACLE_COLOR,
                 current_speed = 10, high_score_file = \<lparr>contents = None, readable = True, writable = True\<rparr>\<rparr> = Inr g2
    \<and> apple_eaten g2
    \<and> tick 3 5 8 [KEYDOWN K_DOWN]
         \<lparr>snake = Snake_init,
          apple = GameObject_init (320, 260) APPLE_COLOR,
          bad_food = GameObject_init (0, 0) BAD_FOOD_COLOR,
          obstacle = GameObject_init (20, 0) OBSTACLE_COLOR,
          current_speed = 10, high_score_file = \<lparr>contents = None, readable = True, writable = True\<rparr>\<rparr> = Inr g5
    \<and> length_snake (snake g5) = 2
    \<and> int (length (positions (snake g5))) = length_snake (snake g5) - 1)
   \<and> (\<exists>g5.
      tick 3 5 8 []
         \<lparr>snake = Snake_init\<lparr>length_snake := 2, direction := DOWN, positions := [(320, 260)],
                             position := (320, 260)\<rparr>,
          apple = GameObject_init (0, 0) APPLE_COLOR,
          bad_food = GameObject_init (20, 0) BAD_FOOD_COLOR,
          obstacle = GameObject_init (40, 0) OBSTACLE_COLOR,
          current_speed = 10, high_score_file = \<lparr>contents = None, readable = True, writable = True\<rparr>\<rparr> = Inr g5
    \<and> tl (positions (snake g5)) = [(320, 260)]
    \<and> length_snake (snake g5) = 2
    \<and> int (length (positions (snake g5))) = length_snake (snake g5))"
proof -
  define g where "g = \<lparr>snake = Snake_init,
          apple = GameObject_init (320, 260) APPLE_COLOR,
          bad_food = GameObject_init (0, 0) BAD_FOOD_COLOR,
          obstacle = GameObject_init (20, 0) OBSTACLE_COLOR,
          current_speed = 10, high_score_file = \<lparr>contents = None, readable = True, writable = True\<rparr>\<rparr>"
  define g1 where "g1 = g\<lparr>snake := Snake_init\<lparr>next_direction := Some DOWN\<rparr>\<rparr>"
  define s2 where "s2 = Snake_init\<lparr>direction := DOWN, positions := [(320, 260)],
                     last_snake := Some (320, 240), position := (320, 260)\<rparr>"
  define g2 where "g2 = g1\<lparr>snake := s2\<rparr>"
  have inv: "int (length (positions (snake g))) = length_snake (snake g)"
    by (simp add: g_def Snake_init_def)
  have i: "tick_input [KEYDOWN K_DOWN] g = Inr g1"
    by (simp add: tick_input_def g_def g1_def direction_map_def)
  have nc: "\<not> self_collision (update_direction (snake g1))"
    by (simp add: self_collision_def update_direction_def g1_def Snake_init_def)
  have m: "tick_move g1 = Inr g2"
    by (simp add: tick_move_def g1_def g2_def s2_def move_def update_direction_def
        get_head_position_def Snake_init_def next_head_unfold DOWN_def
        SCREEN_WIDTH_def SCREEN_HEIGHT_def Let_def)
  have eaten: "apple_eaten g2"
    by (simp add: apple_eaten_def g2_def g1_def g_def s2_def get_head_position_def
        GameObject_init_def)
  obtain pa where a: "Apple_randomize_position 3 [(320, 260)] (apple g)
                        = Inr ((apple g)\<lparr>position := pa\<rparr>)"
    using randomize_single(1) by blast
  define g3 where "g3 = g2\<lparr>snake := s2\<lparr>length_snake := 2\<rparr>, apple := (apple g)\<lparr>position := pa\<rparr>\<rparr>"
  have ap: "tick_apple 3 g2 = Inr g3"
    using a by (simp add: tick_apple_def g1_def g2_def g3_def s2_def g_def get_head_position_def
        GameObject_init_def Snake_init_def)
  have nb: "\<not> bad_food_resets g3"
    by (simp add: bad_food_resets_def g3_def g2_def g1_def g_def s2_def get_head_position_def
        GameObject_init_def)
  have bf: "tick_bad_food 5 g3 = Inr g3"
    by (simp add: tick_bad_food_def g3_def g2_def g1_def g_def s2_def get_head_position_def
        GameObject_init_def)
  have no: "\<not> obstacle_hit g3"
    by (simp add: obstacle_hit_def g3_def g2_def g1_def g_def s2_def get_head_position_def
        GameObject_init_def)
  have ob: "tick_obstacle 8 g3 = Inr g3"
    by (simp add: tick_obstacle_def g3_def g2_def g1_def g_def s2_def get_head_position_def
        GameObject_init_def)
  have len: "length_snake (snake g3) = 2"
    by (simp add: g3_def)
  from tick_restores_length [OF i nc m ap nb bf no ob] inv eaten
  have "tick 3 5 8 [KEYDOWN K_DOWN] g = Inr g3
      \<and> int (length (positions (snake g3))) = length_snake (snake g3) - 1"
    by simp
  moreover have "g1 = \<lparr>snake = Snake_init\<lparr>next_direction := Some DOWN\<rparr>,
                 apple = GameObject_init (320, 260) APPLE_COLOR,
                 bad_food = GameObject_init (0, 0) BAD_FOOD_COLOR,
                 obstacle = GameObject_init (20, 0) OBSTACLE_COLOR,
                 current_speed = 10, high_score_file = \<lparr>contents = None, readable = True, writable = True\<rparr>\<rparr>"
    by (simp add: g1_def g_def)
  ultimately have first: "\<exists>g2 g5.
      tick_move \<lparr>snake = Snake_init\<lparr>next_direction := Some DOWN\<rparr>,
                 apple = GameObject_init (320, 260) APPLE_COLOR,
                 bad_food = GameObject_init (0, 0) BAD_FOOD_COLOR,
                 obstacle = GameObject_init (20, 0) OBSTACLE_COLOR,
                 current_speed = 10, high_score_file = \<lparr>contents = None, readable = True, writable = True\<rparr>\<rparr> = Inr g2
    \<and> apple_eaten g2
    \<and> tick 3 5 8 [KEYDOWN K_DOWN]
         \<lparr>snake = Snake_init,
          apple = GameObject_init (320, 260) APPLE_COLOR,
          bad_food = GameObject_init (0, 0) BAD_FOOD_COLOR,
          obstacle = GameObject_init (20, 0) OBSTACLE_COLOR,
          current_speed = 10, high_score_file = \<lparr>contents = None, readable = True, writable = True\<rparr>\<rparr> = Inr g5
    \<and> length_snake (snake g5) = 2
    \<and> int (length (positions (snake g5))) = length_snake (snake g5) - 1"
    using m eaten len unfolding g_def by blast
  define p where "p = Snake_init\<lparr>length_snake := 2, direction := DOWN,
                     positions := [(320, 260)], position := (320, 260)\<rparr>"
  define k where "k = \<lparr>snake = p,
          apple = GameObject_init (0, 0) APPLE_COLOR,
          bad_food = GameObject_init (20, 0) BAD_FOOD_COLOR,
          obstacle = GameObject_init (40, 0) OBSTACLE_COLOR,
          current_speed = 10, high_score_file = \<lparr>contents = None, readable = True, writable = True\<rparr>\<rparr>"
  define k2 where "k2 = k\<lparr>snake := p\<lparr>positions := [(320, 280), (320, 260)],
                                     last_snake := None, position := (320, 280)\<rparr>\<rparr>"
  have pend: "int (length (positions (snake k))) = length_snake (snake k) - 1"
    by (simp add: k_def p_def)
  have ki: "tick_input [] k = Inr k"
    by (simp add: tick_input_def k_def)
  have knc: "\<not> self_collision (update_direction (snake k))"
    by (simp add: self_collision_def update_direction_def k_def p_def Snake_init_def)
  have km: "tick_move k = Inr k2"
    by (simp add: tick_move_def k_def k2_def p_def move_def update_direction_def
        get_head_position_def Snake_init_def next_head_unfold DOWN_def
        SCREEN_WIDTH_def SCREEN_HEIGHT_def Let_def)
  have kne: "\<not> apple_eaten k2"
    by (simp add: apple_eaten_def k2_def k_def p_def get_head_position_def GameObject_init_def)
  have kap: "tick_apple 3 k2 = Inr k2"
    by (simp add: tick_apple_def k2_def k_def p_def get_head_position_def GameObject_init_def)
  have knb: "\<not> bad_food_resets k2"
    by (simp add: bad_food_resets_def k2_def k_def p_def get_head_position_def
        GameObject_init_def)
  have kbf: "tick_bad_food 5 k2 = Inr k2"
    by (simp add: tick_bad_food_def k2_def k_def p_def get_head_position_def
        GameObject_init_def)
  have kno: "\<not> obstacle_hit k2"
    by (simp add: obstacle_hit_def k2_def k_def p_def get_head_position_def
        GameObject_init_def)
  have kob: "tick_obstacle 8 k2 = Inr k2"
    by (simp add: tick_obstacle_def k2_def k_def p_def get_head_position_def
        GameObject_init_def)
  from tick_restores_length [OF ki knc km kap knb kbf kno kob] pend kne
  have "tick 3 5 8 [] k = Inr k2
      \<and> tl (positions (snake k2)) = positions (snake k)
      \<and> int (length (positions (snake k2))) = length_snake (snake k2)"
    by simp
  moreover have "positions (snake k) = [(320, 260)]" "length_snake (snake k2) = 2"
    by (simp_all add: k_def k2_def p_def)
  ultimately have second: "\<exists>g5. tick 3 5 8 [] k = Inr g5
      \<and> tl (positions (snake g5)) = [(320, 260)]
      \<and> length_snake (snake g5) = 2
      \<and> int (length (positions (snake g5))) = length_snake (snake g5)"
    by auto
  from first second show ?thesis
    unfolding k_def p_def by blast
qed












end
